theory Spec2Isabelle
  imports Main
begin

section \<open>Instants and their renderings\<close>

text \<open>
  A value of Python's \<^verbatim>\<open>datetime\<close> as \<^verbatim>\<open>datetime.now()\<close> returns it: naive (no time
  zone), with calendar fields. Python keeps the fields in range (year 1..9999, month 1..12,
  and so on); the renderings below print every field with its fixed number of decimal
  digits.
\<close>

record datetime =
  year :: nat
  month :: nat
  day :: nat
  hour :: nat
  minute :: nat
  second :: nat
  microsecond :: nat

definition digit :: "nat \<Rightarrow> char" where
  "digit d = ''0123456789'' ! (d mod 10)"

definition d2 :: "nat \<Rightarrow> string" where
  "d2 n = [digit (n div 10), digit n]"

definition d4 :: "nat \<Rightarrow> string" where
  "d4 n = [digit (n div 1000), digit (n div 100), digit (n div 10), digit n]"

definition d6 :: "nat \<Rightarrow> string" where
  "d6 n = [digit (n div 100000), digit (n div 10000), digit (n div 1000),
           digit (n div 100), digit (n div 10), digit n]"

text \<open>\<^verbatim>\<open>t.strftime("%Y%m%d_%H%M%S")\<close>, the only format the program uses.\<close>

definition strftime :: "datetime \<Rightarrow> string" where
  "strftime t = d4 (year t) @ d2 (month t) @ d2 (day t) @ ''_'' @
                d2 (hour t) @ d2 (minute t) @ d2 (second t)"

text \<open>\<^verbatim>\<open>t.isoformat()\<close>: the fraction is printed only when the microseconds are not zero.\<close>

definition isoformat :: "datetime \<Rightarrow> string" where
  "isoformat t = d4 (year t) @ ''-'' @ d2 (month t) @ ''-'' @ d2 (day t) @ ''T'' @
                 d2 (hour t) @ '':'' @ d2 (minute t) @ '':'' @ d2 (second t) @
                 (if microsecond t = 0 then [] else ''.'' @ d6 (microsecond t))"

section \<open>Exceptions\<close>

text \<open>
  The exceptions the program raises or meets. \<open>SdkError\<close> stands for any subclass of
  \<^verbatim>\<open>Exception\<close> raised by the conversational SDK, with its message. \<open>KeyboardInterrupt\<close>
  and \<open>SystemExit\<close> are not subclasses of \<^verbatim>\<open>Exception\<close>, so \<^verbatim>\<open>except Exception\<close>
  lets them through.
\<close>

datatype exn =
    ValueError string
  | FileExistsError string
  | FileNotFoundError string
  | NotADirectoryError string
  | IsADirectoryError string
  | SdkError string
  | KeyboardInterrupt
  | SystemExit nat

fun is_Exception :: "exn \<Rightarrow> bool" where
  "is_Exception KeyboardInterrupt = False"
| "is_Exception (SystemExit n) = False"
| "is_Exception e = True"

text \<open>
  \<^verbatim>\<open>repr\<close> of a string without quotes, backslashes or unprintable characters (the file
  names of this program are such strings): the string between single quotes.
\<close>

definition py_repr :: "string \<Rightarrow> string" where
  "py_repr s = [CHR 0x27] @ s @ [CHR 0x27]"

text \<open>\<^verbatim>\<open>str(e)\<close>, as the f-strings of the two handlers print it (messages of Linux).\<close>

fun str_exn :: "exn \<Rightarrow> string" where
  "str_exn (ValueError msg) = msg"
| "str_exn (FileExistsError p) = ''[Errno 17] File exists: '' @ py_repr p"
| "str_exn (FileNotFoundError p) = ''[Errno 2] No such file or directory: '' @ py_repr p"
| "str_exn (NotADirectoryError p) = ''[Errno 20] Not a directory: '' @ py_repr p"
| "str_exn (IsADirectoryError p) = ''[Errno 21] Is a directory: '' @ py_repr p"
| "str_exn (SdkError msg) = msg"
| "str_exn KeyboardInterrupt = []"
| "str_exn (SystemExit n) = (if n < 10 then [digit n] else d2 n)"

section \<open>The transcript and the file system\<close>

text \<open>One dictionary of \<^verbatim>\<open>self.history\<close>: the keys \<^verbatim>\<open>role\<close>, \<^verbatim>\<open>text\<close>, \<^verbatim>\<open>timestamp\<close>.\<close>

record entry =
  role :: string
  text_of :: string
  timestamp :: string

text \<open>
  The object \<^verbatim>\<open>json.dump\<close> writes, kept as the JSON value (its layout as text, two
  spaces of indentation, is not modelled): \<^verbatim>\<open>start_time\<close> is \<^verbatim>\<open>null\<close> for \<open>None\<close>.
\<close>

record transcript =
  json_start_time :: "string option"
  json_end_time :: string
  json_history :: "entry list"

text \<open>
  A node of the file system: a directory, or a regular file holding a transcript
  (\<open>None\<close> is the empty file that \<^verbatim>\<open>open(filename, "w")\<close> leaves before anything is
  written). Paths are relative to the working directory, which exists; the empty
  \<open>dirname\<close> is the working directory itself.
\<close>

datatype node = Dir | File "transcript option"

type_synonym filesystem = "string \<rightharpoonup> node"

definition dirname :: "string \<Rightarrow> string" where
  "dirname p = rev (tl (dropWhile (\<lambda>c. c \<noteq> CHR ''/'') (rev p)))"

definition parent_check :: "string \<Rightarrow> filesystem \<Rightarrow> exn option" where
  "parent_check p f =
     (if dirname p = [] then None
      else (case f (dirname p) of
              None \<Rightarrow> Some (FileNotFoundError p)
            | Some (File c) \<Rightarrow> Some (NotADirectoryError p)
            | Some Dir \<Rightarrow> None))"

text \<open>\<^verbatim>\<open>Path(p).mkdir(exist_ok=True)\<close>: an existing directory is accepted, an existing file is not.\<close>

definition mkdir_exist_ok :: "string \<Rightarrow> filesystem \<Rightarrow> exn + filesystem" where
  "mkdir_exist_ok p f =
     (case f p of
        Some Dir \<Rightarrow> Inr f
      | Some (File c) \<Rightarrow> Inl (FileExistsError p)
      | None \<Rightarrow> (case parent_check p f of
                   Some e \<Rightarrow> Inl e
                 | None \<Rightarrow> Inr (f(p \<mapsto> Dir))))"

text \<open>\<^verbatim>\<open>open(p, "w")\<close>: creates or truncates the file; the directory must be there.\<close>

definition open_w :: "string \<Rightarrow> filesystem \<Rightarrow> exn + filesystem" where
  "open_w p f =
     (case parent_check p f of
        Some e \<Rightarrow> Inl e
      | None \<Rightarrow> (case f p of
                   Some Dir \<Rightarrow> Inl (IsADirectoryError p)
                 | Some (File c) \<Rightarrow> Inr (f(p \<mapsto> File None))
                 | None \<Rightarrow> Inr (f(p \<mapsto> File None))))"

section \<open>The collaborator and the world\<close>

text \<open>
  The type \<open>'f\<close> stands for Python's \<^verbatim>\<open>float\<close>, whose values the program only carries.

  \<open>conversation\<close> is the \<^verbatim>\<open>Conversation\<close> object, known by the keyword arguments of its
  construction in \<^verbatim>\<open>start\<close>. The four callback arguments are the bound methods of the
  assistant; they are not stored here: \<open>deliver\<close> below calls the method that was
  registered for each kind of event. \<open>c_client_tools\<close> lists the registered tool names.
\<close>

datatype client = ElevenLabs "string option"

record 'f conversation =
  c_client :: client
  c_agent_id :: string
  c_requires_auth :: bool
  c_volume :: 'f
  c_client_tools :: "string list"

text \<open>The calls made to the SDK, in order.\<close>

datatype 'f call =
    NewClient "string option"
  | NewAudioInterface
  | NewConversation "'f conversation"
  | StartSession
  | WaitForSessionEnd
  | EndSession

text \<open>
  What the SDK does to the program during a session: the callbacks it fires, the tool
  calls of the remote agent, and SIGINT arriving from the operator.
\<close>

datatype 'f event =
    AgentResponse string
  | UserTranscript string
  | AgentResponseCorrection string string
  | LatencyMeasurement 'f
  | ToolCall string "string \<rightharpoonup> string"
  | SIGINT

text \<open>
  The behaviour of the SDK in one run, which the program cannot choose: the exception each
  call raises (\<open>None\<close>: it returns), the events between the start of the session and the
  return of \<^verbatim>\<open>wait_for_session_end\<close>, in the order of their delivery, and the identifier
  that call returns.
\<close>

record 'f collaborator =
  client_exn :: "exn option"
  audio_exn :: "exn option"
  construct_exn :: "exn option"
  start_exn :: "exn option"
  events :: "'f event list"
  wait_exn :: "exn option"
  wait_id :: "string option"
  end_exn :: "exn option"

datatype level = DEBUG | INFO | ERROR

text \<open>
  Everything outside the assistant object: the files, the lines of the operator's log
  (level and message; the time prefix of the format is not modelled), the clock as the
  sequence of its readings with the number of readings taken so far, the handler of
  SIGINT, and the calls made to the SDK.
\<close>

record 'f world =
  fs :: filesystem
  log_lines :: "(level \<times> string) list"
  clock :: "nat \<Rightarrow> datetime"
  ticks :: nat
  sigint_installed :: bool
  calls :: "'f call list"

text \<open>\<^verbatim>\<open>datetime.now()\<close>.\<close>

definition now :: "'f world \<Rightarrow> datetime \<times> 'f world" where
  "now w = (clock w (ticks w), w\<lparr>ticks := Suc (ticks w)\<rparr>)"

text \<open>
  The module's logger: \<^verbatim>\<open>basicConfig(level=logging.INFO)\<close> lets INFO and ERROR through
  and drops DEBUG.
\<close>

definition logger_info :: "string \<Rightarrow> 'f world \<Rightarrow> 'f world" where
  "logger_info msg w = w\<lparr>log_lines := log_lines w @ [(INFO, msg)]\<rparr>"

definition logger_error :: "string \<Rightarrow> 'f world \<Rightarrow> 'f world" where
  "logger_error msg w = w\<lparr>log_lines := log_lines w @ [(ERROR, msg)]\<rparr>"

definition logger_debug :: "string \<Rightarrow> 'f world \<Rightarrow> 'f world" where
  "logger_debug msg w = w"

definition sdk_call :: "'f call \<Rightarrow> 'f world \<Rightarrow> 'f world" where
  "sdk_call c w = w\<lparr>calls := calls w @ [c]\<rparr>"

text \<open>\<^verbatim>\<open>self.conversation.end_session()\<close>.\<close>

definition end_session :: "'f collaborator \<Rightarrow> 'f world \<Rightarrow> exn option \<times> 'f world" where
  "end_session x w = (end_exn x, sdk_call EndSession w)"

section \<open>The assistant\<close>

record 'f voice_assistant =
  agent_id :: string
  api_key :: "string option"
  volume :: 'f
  timeout :: int
  conversation :: "'f conversation option"
  client :: client
  history :: "entry list"
  start_time :: "datetime option"

text \<open>\<^verbatim>\<open>os.getenv(key, default)\<close>.\<close>

definition getenv :: "(string \<rightharpoonup> string) \<Rightarrow> string \<Rightarrow> string \<Rightarrow> string" where
  "getenv env k dflt = (case env k of None \<Rightarrow> dflt | Some v \<Rightarrow> v)"

text \<open>
  \<^verbatim>\<open>VoiceAssistant.__init__\<close>. \<open>py_float\<close> and \<open>py_int\<close> are Python's \<^verbatim>\<open>float\<close> and
  \<^verbatim>\<open>int\<close> on strings (\<open>None\<close> where they raise \<^verbatim>\<open>ValueError\<close>); \<open>dotenv\<close> is the content
  of the \<^verbatim>\<open>.env\<close> file, which \<^verbatim>\<open>load_dotenv()\<close> adds to the environment without
  replacing a variable that is already set.
\<close>

definition init ::
  "(string \<Rightarrow> 'f option) \<Rightarrow> (string \<Rightarrow> int option) \<Rightarrow> (string \<rightharpoonup> string) \<Rightarrow>
   (string \<rightharpoonup> string) \<Rightarrow> 'f collaborator \<Rightarrow> 'f world \<Rightarrow> (exn + 'f voice_assistant) \<times> 'f world" where
  "init py_float py_int dotenv environ x w =
     (let env = dotenv ++ environ in
      if (case env ''AGENT_ID'' of None \<Rightarrow> True | Some a \<Rightarrow> a = [])
      then (Inl (ValueError ''AGENT_ID environment variable is required''), w)
      else
        (case py_float (getenv env ''VOLUME'' ''1.0'') of
           None \<Rightarrow>
             (Inl (ValueError (''could not convert string to float: '' @
                               py_repr (getenv env ''VOLUME'' ''1.0''))), w)
         | Some v \<Rightarrow>
             (case py_int (getenv env ''TIMEOUT'' ''300'') of
                None \<Rightarrow>
                  (Inl (ValueError (''invalid literal for int() with base 10: '' @
                                    py_repr (getenv env ''TIMEOUT'' ''300''))), w)
              | Some n \<Rightarrow>
                  (case client_exn x of
                     Some e \<Rightarrow> (Inl e, sdk_call (NewClient (env ''ELEVENLABS_API_KEY'')) w)
                   | None \<Rightarrow>
                       (Inr \<lparr>agent_id = getenv env ''AGENT_ID'' [],
                             api_key = env ''ELEVENLABS_API_KEY'',
                             volume = v,
                             timeout = n,
                             conversation = None,
                             client = ElevenLabs (env ''ELEVENLABS_API_KEY''),
                             history = [],
                             start_time = None\<rparr>,
                        sdk_call (NewClient (env ''ELEVENLABS_API_KEY'')) w)))))"

text \<open>The name \<^verbatim>\<open>save_conversation\<close> builds when it is given none.\<close>

definition default_filename :: "datetime \<Rightarrow> string" where
  "default_filename t = ''logs/conversation_'' @ strftime t @ ''.json''"

text \<open>
  \<^verbatim>\<open>save_conversation\<close>: the exception that escapes (\<open>None\<close>: it returns) and the world
  after it. The assistant itself is not changed.
\<close>

definition save_conversation ::
  "'f voice_assistant \<Rightarrow> string option \<Rightarrow> 'f world \<Rightarrow> exn option \<times> 'f world" where
  "save_conversation self filename w =
     (if history self = [] then (None, w)
      else
        (case (case filename of
                 None \<Rightarrow>
                   (case mkdir_exist_ok ''logs'' (fs w) of
                      Inl e \<Rightarrow> Inl (e, w)
                    | Inr f \<Rightarrow>
                        (case now (w\<lparr>fs := f\<rparr>) of
                           (t, w1) \<Rightarrow> Inr (default_filename t, w1)))
               | Some fn \<Rightarrow> Inr (fn, w)) of
           Inl (e, w1) \<Rightarrow> (Some e, w1)
         | Inr (fn, w1) \<Rightarrow>
             (case open_w fn (fs w1) of
                Inl e \<Rightarrow> (Some e, w1)
              | Inr f \<Rightarrow>
                  (case now (w1\<lparr>fs := f\<rparr>) of
                     (t, w2) \<Rightarrow>
                       (None,
                        logger_info (''Conversation saved to '' @ fn)
                          (w2\<lparr>fs := (fs w2)(fn \<mapsto> File (Some
                             \<lparr>json_start_time = map_option isoformat (start_time self),
                              json_end_time = isoformat t,
                              json_history = history self\<rparr>))\<rparr>))))))"

definition agent_response_callback ::
  "string \<Rightarrow> 'f voice_assistant \<Rightarrow> 'f world \<Rightarrow> 'f voice_assistant \<times> 'f world" where
  "agent_response_callback response self w =
     (case now w of
        (t, w1) \<Rightarrow>
          (self\<lparr>history := history self @
                   [\<lparr>role = ''agent'', text_of = response, timestamp = isoformat t\<rparr>]\<rparr>,
           logger_info (''Agent: '' @ response) w1))"

definition user_transcript_callback ::
  "string \<Rightarrow> 'f voice_assistant \<Rightarrow> 'f world \<Rightarrow> 'f voice_assistant \<times> 'f world" where
  "user_transcript_callback transcript self w =
     (case now w of
        (t, w1) \<Rightarrow>
          (self\<lparr>history := history self @
                   [\<lparr>role = ''user'', text_of = transcript, timestamp = isoformat t\<rparr>]\<rparr>,
           logger_info (''User: '' @ transcript) w1))"

text \<open>The arrow of the log line is U+2192, three bytes in UTF-8.\<close>

definition correction_callback ::
  "string \<Rightarrow> string \<Rightarrow> 'f voice_assistant \<Rightarrow> 'f world \<Rightarrow> 'f voice_assistant \<times> 'f world" where
  "correction_callback original corrected self w =
     (self,
      logger_info (''Correction: '' @ py_repr original @ '' '' @
                   [CHR 0xE2, CHR 0x86, CHR 0x92] @ '' '' @ py_repr corrected) w)"

text \<open>The line is of level DEBUG, so its text (a float and \<^verbatim>\<open>ms\<close>) is never printed.\<close>

definition latency_callback ::
  "'f \<Rightarrow> 'f voice_assistant \<Rightarrow> 'f world \<Rightarrow> 'f voice_assistant \<times> 'f world" where
  "latency_callback latency self w = (self, logger_debug ''Latency'' w)"

definition handle_interrupt ::
  "'f collaborator \<Rightarrow> 'f voice_assistant \<Rightarrow> 'f world \<Rightarrow>
   exn option \<times> 'f voice_assistant \<times> 'f world" where
  "handle_interrupt x self w =
     (let w1 = logger_info (CHR 0x0A # ''Received interrupt signal. Ending conversation...'') w in
      case conversation self of
        None \<Rightarrow> (None, self, w1)
      | Some c \<Rightarrow> (case end_session x w1 of (r, w2) \<Rightarrow> (r, self, w2)))"

text \<open>
  The tool \<^verbatim>\<open>log_message\<close> of \<^verbatim>\<open>setup_client_tools\<close>; the parameters are a dictionary
  with string values. It returns \<^verbatim>\<open>None\<close>, so only the world is returned here.
\<close>

definition log_message :: "(string \<rightharpoonup> string) \<Rightarrow> 'f world \<Rightarrow> 'f world" where
  "log_message parameters w =
     (case parameters ''message'' of
        None \<Rightarrow> w
      | Some message \<Rightarrow>
          (if message = [] then w
           else logger_info (''AI Tool Call - Log Message: '' @ message) w))"

text \<open>\<^verbatim>\<open>setup_client_tools\<close>: the registry, from tool names to tools.\<close>

definition setup_client_tools :: "string \<rightharpoonup> ((string \<rightharpoonup> string) \<Rightarrow> 'f world \<Rightarrow> 'f world)" where
  "setup_client_tools = [''logMessage'' \<mapsto> log_message]"

text \<open>
  The delivery of one event to the method registered for it. A call of a tool that is not
  registered is answered inside the SDK and does not reach the program. An exception
  raised in the handler of SIGINT surfaces in the main thread.
\<close>

fun deliver ::
  "'f collaborator \<Rightarrow> 'f event \<Rightarrow> 'f voice_assistant \<Rightarrow> 'f world \<Rightarrow>
   exn option \<times> 'f voice_assistant \<times> 'f world" where
  "deliver x (AgentResponse response) self w =
     (case agent_response_callback response self w of (s, w1) \<Rightarrow> (None, s, w1))"
| "deliver x (UserTranscript transcript) self w =
     (case user_transcript_callback transcript self w of (s, w1) \<Rightarrow> (None, s, w1))"
| "deliver x (AgentResponseCorrection original corrected) self w =
     (case correction_callback original corrected self w of (s, w1) \<Rightarrow> (None, s, w1))"
| "deliver x (LatencyMeasurement latency) self w =
     (case latency_callback latency self w of (s, w1) \<Rightarrow> (None, s, w1))"
| "deliver x (ToolCall name parameters) self w =
     (case setup_client_tools name of
        None \<Rightarrow> (None, self, w)
      | Some tool \<Rightarrow> (None, self, tool parameters w))"
| "deliver x SIGINT self w =
     (if sigint_installed w then handle_interrupt x self w
      else (Some KeyboardInterrupt, self, w))"

fun run_events ::
  "'f collaborator \<Rightarrow> 'f event list \<Rightarrow> 'f voice_assistant \<Rightarrow> 'f world \<Rightarrow>
   exn option \<times> 'f voice_assistant \<times> 'f world" where
  "run_events x [] self w = (None, self, w)"
| "run_events x (e # es) self w =
     (case deliver x e self w of
        (Some err, s, w1) \<Rightarrow> (Some err, s, w1)
      | (None, s, w1) \<Rightarrow> run_events x es s w1)"

text \<open>\<^verbatim>\<open>str\<close> of the identifier \<^verbatim>\<open>wait_for_session_end\<close> returns, in the f-string.\<close>

definition str_id :: "string option \<Rightarrow> string" where
  "str_id i = (case i of None \<Rightarrow> ''None'' | Some s \<Rightarrow> s)"

text \<open>The body of the \<^verbatim>\<open>try\<close> of \<^verbatim>\<open>start\<close>.\<close>

definition start_try ::
  "'f collaborator \<Rightarrow> 'f voice_assistant \<Rightarrow> 'f world \<Rightarrow>
   exn option \<times> 'f voice_assistant \<times> 'f world" where
  "start_try x self w =
     (case now (w\<lparr>sigint_installed := True\<rparr>) of
        (t, w1) \<Rightarrow>
          (let s1 = self\<lparr>start_time := Some t\<rparr>;
               w2 = sdk_call NewAudioInterface w1
           in case audio_exn x of
                Some e \<Rightarrow> (Some e, s1, w2)
              | None \<Rightarrow>
                  (let c = \<lparr>c_client = client s1,
                            c_agent_id = agent_id s1,
                            c_requires_auth =
                              (case api_key s1 of None \<Rightarrow> False | Some k \<Rightarrow> k \<noteq> []),
                            c_volume = volume s1,
                            c_client_tools = [''logMessage'']\<rparr>;
                       w3 = sdk_call (NewConversation c) w2
                   in case construct_exn x of
                        Some e \<Rightarrow> (Some e, s1, w3)
                      | None \<Rightarrow>
                          (let s2 = s1\<lparr>conversation := Some c\<rparr>;
                               w4 = sdk_call StartSession
                                      (logger_info ''Starting conversation. Press Ctrl+C to end.'' w3)
                           in case start_exn x of
                                Some e \<Rightarrow> (Some e, s2, w4)
                              | None \<Rightarrow>
                                  (case run_events x (events x) s2 (sdk_call WaitForSessionEnd w4) of
                                     (Some e, s3, w5) \<Rightarrow> (Some e, s3, w5)
                                   | (None, s3, w5) \<Rightarrow>
                                       (case wait_exn x of
                                          Some e \<Rightarrow> (Some e, s3, w5)
                                        | None \<Rightarrow>
                                            (case save_conversation s3 None
                                                    (logger_info (''Conversation ended. ID: '' @
                                                                  str_id (wait_id x)) w5) of
                                               (r, w6) \<Rightarrow> (r, s3, w6))))))))"

text \<open>The handler \<^verbatim>\<open>except Exception as e\<close> of \<^verbatim>\<open>start\<close>.\<close>

definition start_except ::
  "'f collaborator \<Rightarrow> exn \<Rightarrow> 'f voice_assistant \<Rightarrow> 'f world \<Rightarrow>
   exn option \<times> 'f voice_assistant \<times> 'f world" where
  "start_except x e self w =
     (let w1 = logger_error (''Error during conversation: '' @ str_exn e) w in
      case (case conversation self of
              None \<Rightarrow> (None, w1)
            | Some c \<Rightarrow> end_session x w1) of
        (Some e1, w2) \<Rightarrow> (Some e1, self, w2)
      | (None, w2) \<Rightarrow>
          (case save_conversation self (Some ''logs/conversation_error.json'') w2 of
             (Some e2, w3) \<Rightarrow> (Some e2, self, w3)
           | (None, w3) \<Rightarrow> (Some (SystemExit 1), self, w3)))"

text \<open>\<^verbatim>\<open>VoiceAssistant.start\<close>: the exception that escapes it, if any, and the state after.\<close>

definition start ::
  "'f collaborator \<Rightarrow> 'f voice_assistant \<Rightarrow> 'f world \<Rightarrow>
   exn option \<times> 'f voice_assistant \<times> 'f world" where
  "start x self w =
     (case start_try x self w of
        (None, s, w1) \<Rightarrow> (None, s, w1)
      | (Some e, s, w1) \<Rightarrow>
          (if is_Exception e then start_except x e s w1 else (Some e, s, w1)))"

text \<open>What \<^verbatim>\<open>main\<close> does with an exception: the exit status of the process.\<close>

definition main_except :: "exn \<Rightarrow> 'f world \<Rightarrow> nat \<times> 'f world" where
  "main_except e w =
     (case e of
        KeyboardInterrupt \<Rightarrow> (0, logger_info (CHR 0x0A # ''Application terminated by user'') w)
      | SystemExit n \<Rightarrow> (n, w)
      | _ \<Rightarrow> (1, logger_error (''Application error: '' @ str_exn e) w))"

text \<open>\<^verbatim>\<open>main\<close>: the exit status of the process and the world it leaves.\<close>

definition main ::
  "(string \<Rightarrow> 'f option) \<Rightarrow> (string \<Rightarrow> int option) \<Rightarrow> (string \<rightharpoonup> string) \<Rightarrow>
   (string \<rightharpoonup> string) \<Rightarrow> 'f collaborator \<Rightarrow> 'f world \<Rightarrow> nat \<times> 'f world" where
  "main py_float py_int dotenv environ x w =
     (case init py_float py_int dotenv environ x w of
        (Inl e, w1) \<Rightarrow> main_except e w1
      | (Inr self, w1) \<Rightarrow>
          (case start x self w1 of
             (None, s, w2) \<Rightarrow> (0, w2)
           | (Some e, s, w2) \<Rightarrow> main_except e w2))"

section \<open>Vocabulary of the statements\<close>

text \<open>
  The callbacks that record a turn of the dialogue, with the role and the text the entry
  of that turn is to carry; \<open>shown\<close> reads the same two fields off a recorded entry.
\<close>

fun turn_of :: "'f event \<Rightarrow> (string \<times> string) option" where
  "turn_of (AgentResponse response) = Some (''agent'', response)"
| "turn_of (UserTranscript transcript) = Some (''user'', transcript)"
| "turn_of e = None"

definition is_turn :: "'f event \<Rightarrow> bool" where
  "is_turn e = (case turn_of e of None \<Rightarrow> False | Some p \<Rightarrow> True)"

definition shown :: "entry \<Rightarrow> (string \<times> string) option" where
  "shown e = Some (role e, text_of e)"

section \<open>A concrete run\<close>

text \<open>
  The inputs of the examples: a clock that advances by one second at each reading, from
  2024-01-02 10:05:00; a world with no file and no log line; the assistant that
  \<open>init\<close> builds from \<^verbatim>\<open>AGENT_ID=abc123\<close>; an SDK that delivers "hello" from the user,
  then "hi there" from the agent, and ends the session normally; the same SDK with a
  failure of the stream after the two turns. Floats are natural numbers here.
\<close>

definition ticking_clock :: "nat \<Rightarrow> datetime" where
  "ticking_clock n = \<lparr>year = 2024, month = 1, day = 2, hour = 10, minute = 5,
                      second = n, microsecond = 0\<rparr>"

definition fresh_world :: "nat world" where
  "fresh_world = \<lparr>fs = Map.empty, log_lines = [], clock = ticking_clock, ticks = 0,
                  sigint_installed = False, calls = []\<rparr>"

definition demo_assistant :: "nat voice_assistant" where
  "demo_assistant = \<lparr>agent_id = ''abc123'', api_key = None, volume = 1, timeout = 300,
                     conversation = None, client = ElevenLabs None, history = [],
                     start_time = None\<rparr>"

definition demo_sdk :: "nat collaborator" where
  "demo_sdk = \<lparr>client_exn = None, audio_exn = None, construct_exn = None, start_exn = None,
               events = [UserTranscript ''hello'', AgentResponse ''hi there''],
               wait_exn = None, wait_id = Some ''conv_1'', end_exn = None\<rparr>"

definition failing_sdk :: "nat collaborator" where
  "failing_sdk = demo_sdk\<lparr>wait_exn := Some (SdkError ''connection lost'')\<rparr>"

definition demo_float :: "string \<Rightarrow> nat option" where
  "demo_float s = (if s = ''1.0'' then Some 1 else None)"

definition demo_int :: "string \<Rightarrow> int option" where
  "demo_int s = (if s = ''300'' then Some 300 else if s = ''60'' then Some 60 else None)"

section \<open>File names\<close>

lemma digit_in: "digit d \<in> set ''0123456789''"
  unfolding digit_def by (rule nth_mem) simp

lemma digit_not_slash: "digit d \<noteq> CHR ''/''"
  using digit_in [of d] by auto

lemma strftime_no_slash: "CHR ''/'' \<notin> set (strftime t)"
  by (simp add: strftime_def d2_def d4_def digit_not_slash [symmetric])

lemma dirname_under: "CHR ''/'' \<notin> set b \<Longrightarrow> dirname (a @ CHR ''/'' # b) = a"
proof -
  assume h: "CHR ''/'' \<notin> set b"
  have "dropWhile (\<lambda>c. c \<noteq> CHR ''/'') (rev b @ CHR ''/'' # rev a) = CHR ''/'' # rev a"
    using h by (subst dropWhile_append2) auto
  then show ?thesis by (simp add: dirname_def)
qed

lemma dirname_default_filename: "dirname (default_filename t) = ''logs''"
proof -
  have "CHR ''/'' \<notin> set (''conversation_'' @ strftime t @ ''.json'')"
    using strftime_no_slash [of t] by simp
  from dirname_under [OF this, of "''logs''"] show ?thesis
    by (simp add: default_filename_def)
qed

lemma dirname_error_file: "dirname ''logs/conversation_error.json'' = ''logs''"
  by (simp add: dirname_def)

lemma default_filename_not_logs: "default_filename t \<noteq> ''logs''"
  by (simp add: default_filename_def)

section \<open>The events of a session\<close>

lemma deliver_frame:
  "deliver x e self w = (r, s, w') \<Longrightarrow>
     fs w' = fs w \<and> clock w' = clock w \<and> sigint_installed w' = sigint_installed w \<and>
     conversation s = conversation self \<and> start_time s = start_time self \<and>
     timeout s = timeout self"
  by (cases e)
     (auto simp: agent_response_callback_def user_transcript_callback_def
        correction_callback_def latency_callback_def setup_client_tools_def log_message_def
        handle_interrupt_def end_session_def sdk_call_def logger_info_def logger_debug_def
        Let_def now_def split: if_splits option.splits prod.splits)

lemma run_events_frame:
  "run_events x evs self w = (r, s, w') \<Longrightarrow>
     fs w' = fs w \<and> clock w' = clock w \<and> sigint_installed w' = sigint_installed w \<and>
     conversation s = conversation self \<and> start_time s = start_time self \<and>
     timeout s = timeout self"
proof (induction evs arbitrary: self w)
  case Nil
  then show ?case by simp
next
  case (Cons e es)
  obtain r1 s1 w1 where d: "deliver x e self w = (r1, s1, w1)"
    by (cases "deliver x e self w") auto
  note f = deliver_frame [OF d]
  show ?case
  proof (cases r1)
    case None
    with Cons.prems d have "run_events x es s1 w1 = (r, s, w')" by simp
    from Cons.IH [OF this] f show ?thesis by simp
  next
    case (Some err)
    with Cons.prems d have "s = s1" "w' = w1" by simp_all
    with f show ?thesis by simp
  qed
qed

lemma deliver_ok:
  "(end_exn x = None \<and> sigint_installed w) \<or> e \<noteq> SIGINT \<Longrightarrow>
     \<exists>s w'. deliver x e self w = (None, s, w') \<and>
       ticks w' = ticks w + length (filter is_turn [e]) \<and>
       map shown (history s) = map shown (history self) @ map turn_of (filter is_turn [e])"
  by (cases e)
     (auto simp: is_turn_def shown_def agent_response_callback_def user_transcript_callback_def
        correction_callback_def latency_callback_def setup_client_tools_def log_message_def
        handle_interrupt_def end_session_def sdk_call_def logger_info_def logger_debug_def
        now_def Let_def split: option.splits)

lemma run_events_ok:
  "(end_exn x = None \<and> sigint_installed w) \<or> SIGINT \<notin> set evs \<Longrightarrow>
     \<exists>s w'. run_events x evs self w = (None, s, w') \<and>
       ticks w' = ticks w + length (filter is_turn evs) \<and>
       map shown (history s) = map shown (history self) @ map turn_of (filter is_turn evs)"
proof (induction evs arbitrary: self w)
  case Nil
  then show ?case by simp
next
  case (Cons e es)
  from Cons.prems have "(end_exn x = None \<and> sigint_installed w) \<or> e \<noteq> SIGINT" by auto
  from deliver_ok [OF this, of self] obtain s1 w1 where
    d: "deliver x e self w = (None, s1, w1)"
    and k: "ticks w1 = ticks w + length (filter is_turn [e])"
    and h: "map shown (history s1) = map shown (history self) @ map turn_of (filter is_turn [e])"
    by blast
  from deliver_frame [OF d] have "sigint_installed w1 = sigint_installed w" by simp
  with Cons.prems have "(end_exn x = None \<and> sigint_installed w1) \<or> SIGINT \<notin> set es" by auto
  from Cons.IH [OF this, of s1] obtain s w' where
    r: "run_events x es s1 w1 = (None, s, w')"
    and k': "ticks w' = ticks w1 + length (filter is_turn es)"
    and h': "map shown (history s) = map shown (history s1) @ map turn_of (filter is_turn es)"
    by blast
  from d r k k' h h' show ?case by simp
qed

section \<open>Saving\<close>

lemma save_default_ok:
  assumes h: "history self \<noteq> []"
    and l: "fs w ''logs'' = None \<or> fs w ''logs'' = Some Dir"
    and p: "fs w (default_filename (clock w (ticks w))) \<noteq> Some Dir"
  shows "save_conversation self None w =
    (None, w\<lparr>fs := (fs w)(''logs'' \<mapsto> Dir,
                default_filename (clock w (ticks w)) \<mapsto> File (Some
                  \<lparr>json_start_time = map_option isoformat (start_time self),
                   json_end_time = isoformat (clock w (Suc (ticks w))),
                   json_history = history self\<rparr>)),
             ticks := Suc (Suc (ticks w)),
             log_lines := log_lines w @
               [(INFO, ''Conversation saved to '' @ default_filename (clock w (ticks w)))]\<rparr>)"
proof -
  let ?p = "default_filename (clock w (ticks w))"
  have m: "mkdir_exist_ok ''logs'' (fs w) = Inr ((fs w)(''logs'' \<mapsto> Dir))"
    using l by (auto simp: mkdir_exist_ok_def parent_check_def dirname_def map_upd_triv)
  have o: "open_w ?p ((fs w)(''logs'' \<mapsto> Dir)) = Inr ((fs w)(''logs'' \<mapsto> Dir, ?p \<mapsto> File None))"
    using p by (auto simp: open_w_def parent_check_def dirname_default_filename
         default_filename_not_logs split: option.splits node.splits)
  show ?thesis
    using h by (simp add: save_conversation_def m now_def o logger_info_def)
qed

section \<open>The correction callback\<close>

text \<open>
  C4. Whatever the transcript and the two strings, the correction callback returns the
  assistant with the history it had: no entry is changed and none is added. The same holds
  when the SDK delivers the correction as an event.
\<close>

theorem correction_keeps_history:
  "history (fst (correction_callback original corrected self w)) = history self \<and>
   history (fst (snd (deliver x (AgentResponseCorrection original corrected) self w))) =
     history self"
  by (simp add: correction_callback_def)

section \<open>The interrupt handler\<close>

text \<open>
  C9. When the assistant holds no conversation, the handler of the interrupt raises
  nothing, makes no call to the SDK (in particular no call ending a session), touches no
  file and returns the assistant as it was: history, start instant and conversation are
  unchanged. Its only effect is a line in the log.
\<close>

theorem interrupt_without_session:
  assumes "conversation self = None"
  shows "fst (handle_interrupt x self w) = None \<and>
         fst (snd (handle_interrupt x self w)) = self \<and>
         calls (snd (snd (handle_interrupt x self w))) = calls w \<and>
         fs (snd (snd (handle_interrupt x self w))) = fs w"
  using assms by (simp add: handle_interrupt_def logger_info_def)

theorem interrupt_without_session_witness:
  "conversation demo_assistant = None \<and>
   fst (handle_interrupt demo_sdk demo_assistant fresh_world) = None \<and>
   fst (snd (handle_interrupt demo_sdk demo_assistant fresh_world)) = demo_assistant \<and>
   calls (snd (snd (handle_interrupt demo_sdk demo_assistant fresh_world))) = [] \<and>
   fs (snd (snd (handle_interrupt demo_sdk demo_assistant fresh_world))) = Map.empty"
proof -
  have h: "conversation demo_assistant = None"
    by (simp add: demo_assistant_def)
  have c: "calls fresh_world = []" and f: "fs fresh_world = Map.empty"
    by (simp_all add: fresh_world_def)
  from interrupt_without_session [OF h, of demo_sdk fresh_world] h c f
  show ?thesis by simp
qed

section \<open>The tool of the remote agent\<close>

text \<open>
  C8, as stated, fails: called with the empty string as \<^verbatim>\<open>message\<close>, or with no entry
  \<^verbatim>\<open>message\<close> at all, the tool writes no line to the log (the guard \<^verbatim>\<open>if message:\<close>).
\<close>

theorem log_message_empty_counterexample:
  "log_lines (log_message (Map.empty(''message'' \<mapsto> [])) fresh_world) = [] \<and>
   log_lines (log_message Map.empty fresh_world) = []"
  by (simp add: log_message_def fresh_world_def)

text \<open>
  C8, amended. A call of the registered tool \<^verbatim>\<open>logMessage\<close> raises nothing, returns no
  value and leaves the assistant unchanged; it adds one line of level INFO, the message
  after the prefix \<^verbatim>\<open>AI Tool Call - Log Message: \<close>, when \<^verbatim>\<open>message\<close> is present and not
  empty, and changes nothing when \<^verbatim>\<open>message\<close> is the empty string or is missing.
\<close>

theorem log_message_logs_nonempty:
  "deliver x (ToolCall ''logMessage'' parameters) self w =
     (None, self,
      (case parameters ''message'' of
         None \<Rightarrow> w
       | Some message \<Rightarrow>
           (if message = [] then w
            else w\<lparr>log_lines := log_lines w @
                     [(INFO, ''AI Tool Call - Log Message: '' @ message)]\<rparr>)))"
  by (simp add: setup_client_tools_def log_message_def logger_info_def split: option.splits)

section \<open>Saving under a given name\<close>

lemma save_explicit_dirs:
  "(fs (snd (save_conversation self (Some fn) w)) p = Some Dir) = (fs w p = Some Dir)"
  by (auto simp: save_conversation_def open_w_def now_def logger_info_def
        split: option.splits node.splits if_splits)

text \<open>
  C10. Called with a file name, \<^verbatim>\<open>save_conversation\<close> creates no directory. So when the
  history is not empty and there is no \<^verbatim>\<open>logs\<close>, the save of the error path raises
  \<^verbatim>\<open>FileNotFoundError\<close> and leaves the world as it was, nothing persisted, while the save
  under the default name creates \<^verbatim>\<open>logs\<close>.
\<close>

theorem explicit_filename_no_mkdir:
  assumes "history self \<noteq> []" and "fs w ''logs'' = None"
  shows "save_conversation self (Some ''logs/conversation_error.json'') w =
           (Some (FileNotFoundError ''logs/conversation_error.json''), w) \<and>
         fs (snd (save_conversation self (Some fn) w)) ''logs'' \<noteq> Some Dir \<and>
         fs (snd (save_conversation self None w)) ''logs'' = Some Dir"
proof -
  have m: "mkdir_exist_ok ''logs'' (fs w) = Inr ((fs w)(''logs'' \<mapsto> Dir))"
    using assms(2) by (simp add: mkdir_exist_ok_def parent_check_def dirname_def)
  have a: "save_conversation self (Some ''logs/conversation_error.json'') w =
           (Some (FileNotFoundError ''logs/conversation_error.json''), w)"
    using assms
    by (simp add: save_conversation_def open_w_def parent_check_def dirname_error_file)
  have b: "fs (snd (save_conversation self None w)) ''logs'' = Some Dir"
    using assms(1)
    by (auto simp: save_conversation_def m now_def open_w_def parent_check_def
          dirname_default_filename default_filename_not_logs
          default_filename_not_logs [symmetric] logger_info_def
          split: option.splits node.splits)
  have c: "fs (snd (save_conversation self (Some fn) w)) ''logs'' \<noteq> Some Dir"
    using assms(2) by (simp add: save_explicit_dirs)
  from a b c show ?thesis by simp
qed

theorem explicit_filename_no_mkdir_witness:
  "history (demo_assistant\<lparr>history :=
      [\<lparr>role = ''user'', text_of = ''hello'', timestamp = ''2024-01-02T10:05:01''\<rparr>]\<rparr>) \<noteq> [] \<and>
   fs fresh_world ''logs'' = None \<and>
   save_conversation (demo_assistant\<lparr>history :=
      [\<lparr>role = ''user'', text_of = ''hello'', timestamp = ''2024-01-02T10:05:01''\<rparr>]\<rparr>)
      (Some ''logs/conversation_error.json'') fresh_world =
     (Some (FileNotFoundError ''logs/conversation_error.json''), fresh_world)"
proof -
  let ?s = "demo_assistant\<lparr>history :=
      [\<lparr>role = ''user'', text_of = ''hello'', timestamp = ''2024-01-02T10:05:01''\<rparr>]\<rparr>"
  have h: "history ?s \<noteq> []" by simp
  have l: "fs fresh_world ''logs'' = None" by (simp add: fresh_world_def)
  from explicit_filename_no_mkdir [OF h l] h l show ?thesis by simp
qed

section \<open>Initialisation\<close>

text \<open>
  C5. When \<^verbatim>\<open>AGENT_ID\<close> is neither in the environment nor in the \<^verbatim>\<open>.env\<close> file,
  \<open>init\<close> raises the configuration error (in the code a \<^verbatim>\<open>ValueError\<close>) and leaves the
  world untouched: no SDK client is built, no file written. \<open>main\<close> then never reaches
  \<open>start\<close>: it logs the error and exits with status 1, and the only change of the world
  is that line of the log.
\<close>

theorem missing_agent_id:
  assumes "(dotenv ++ environ) ''AGENT_ID'' = None"
  shows "init py_float py_int dotenv environ x w =
           (Inl (ValueError ''AGENT_ID environment variable is required''), w) \<and>
         main py_float py_int dotenv environ x w =
           (1, w\<lparr>log_lines := log_lines w @
                  [(ERROR, ''Application error: AGENT_ID environment variable is required'')]\<rparr>)"
  using assms
  by (simp add: init_def main_def main_except_def logger_error_def Let_def map_add_def)

theorem missing_agent_id_witness:
  "(Map.empty ++ Map.empty(''ELEVENLABS_API_KEY'' \<mapsto> ''k'')) ''AGENT_ID'' = None \<and>
   init demo_float demo_int Map.empty (Map.empty(''ELEVENLABS_API_KEY'' \<mapsto> ''k''))
     demo_sdk fresh_world =
     (Inl (ValueError ''AGENT_ID environment variable is required''), fresh_world) \<and>
   fst (main demo_float demo_int Map.empty (Map.empty(''ELEVENLABS_API_KEY'' \<mapsto> ''k''))
     demo_sdk fresh_world) = 1"
proof -
  have h: "(Map.empty ++ Map.empty(''ELEVENLABS_API_KEY'' \<mapsto> ''k'')) ''AGENT_ID'' = None"
    by simp
  from missing_agent_id [OF h, of demo_float demo_int demo_sdk fresh_world] h
  show ?thesis by simp
qed

section \<open>A session without turns\<close>

lemma save_empty: "history self = [] \<Longrightarrow> save_conversation self filename w = (None, w)"
  by (simp add: save_conversation_def)

lemma deliver_no_turn:
  "\<not> is_turn e \<Longrightarrow> deliver x e self w = (r, s, w') \<Longrightarrow> history s = history self"
  by (cases e)
     (auto simp: is_turn_def correction_callback_def latency_callback_def
        handle_interrupt_def Let_def split: if_splits option.splits prod.splits)

lemma run_events_no_turn:
  "\<not> list_ex is_turn evs \<Longrightarrow> run_events x evs self w = (r, s, w') \<Longrightarrow> history s = history self"
proof (induction evs arbitrary: self w)
  case Nil
  then show ?case by simp
next
  case (Cons e es)
  obtain r1 s1 w1 where d: "deliver x e self w = (r1, s1, w1)"
    by (cases "deliver x e self w") auto
  from Cons.prems have ne: "\<not> is_turn e" and nes: "\<not> list_ex is_turn es" by simp_all
  note h = deliver_no_turn [OF ne d]
  show ?case
  proof (cases r1)
    case None
    with Cons.prems d have "run_events x es s1 w1 = (r, s, w')" by simp
    from Cons.IH [OF nes this] h show ?thesis by simp
  next
    case (Some err)
    with Cons.prems d have "s = s1" by simp
    with h show ?thesis by simp
  qed
qed

lemma start_try_quiet:
  assumes r: "start_try x self w = (r, s, w')"
    and h: "history self = []"
    and n: "\<not> list_ex is_turn (events x)"
  shows "history s = [] \<and> fs w' = fs w"
proof -
  have key: "\<And>s2 w4 r3 s3 w5. run_events x (events x) s2 w4 = (r3, s3, w5) \<Longrightarrow>
               history s3 = history s2 \<and> fs w5 = fs w4"
    using run_events_frame run_events_no_turn [OF n] by blast
  show ?thesis
    using r h
    by (auto simp: start_try_def now_def sdk_call_def logger_info_def Let_def save_empty
          split: option.splits prod.splits dest!: key)
qed

lemma start_except_quiet:
  assumes "start_except x e self w = (r, s, w')" and "history self = []"
  shows "fs w' = fs w"
  using assms
  by (auto simp: start_except_def logger_error_def end_session_def sdk_call_def Let_def save_empty
        split: option.splits prod.splits)

text \<open>
  C2. With an empty history, \<^verbatim>\<open>save_conversation\<close> returns at once, under the default
  name as under a given one: it writes no file, creates no directory, logs nothing. So a
  session in which no agent or user callback fires, however it ends (normally, by an
  interrupt, or by an exception of any call to the SDK), leaves the files as they were.
\<close>

theorem nothing_recorded_nothing_written:
  assumes "history self = []" and "\<not> list_ex is_turn (events x)"
  shows "save_conversation self filename w = (None, w) \<and>
         fs (snd (snd (start x self w))) = fs w"
proof -
  obtain r s w' where t: "start_try x self w = (r, s, w')"
    by (cases "start_try x self w") auto
  from start_try_quiet [OF t assms] have q: "history s = []" "fs w' = fs w" by simp_all
  have "fs (snd (snd (start x self w))) = fs w"
  proof (cases r)
    case None
    with t q show ?thesis by (simp add: start_def)
  next
    case (Some e)
    obtain r2 s2 w2 where e: "start_except x e s w' = (r2, s2, w2)"
      by (cases "start_except x e s w'") auto
    from start_except_quiet [OF e q(1)] q(2) have "fs w2 = fs w" by simp
    with t Some e q show ?thesis by (simp add: start_def)
  qed
  with assms(1) show ?thesis by (simp add: save_empty)
qed

theorem nothing_recorded_nothing_written_witness:
  "history demo_assistant = [] \<and>
   \<not> list_ex is_turn (events (demo_sdk\<lparr>events := [AgentResponseCorrection ''a'' ''b'', SIGINT],
                                        wait_exn := Some (SdkError ''connection lost'')\<rparr>)) \<and>
   save_conversation demo_assistant None fresh_world = (None, fresh_world) \<and>
   fs (snd (snd (start (demo_sdk\<lparr>events := [AgentResponseCorrection ''a'' ''b'', SIGINT],
                                  wait_exn := Some (SdkError ''connection lost'')\<rparr>)
                   demo_assistant fresh_world))) = Map.empty"
proof -
  let ?x = "demo_sdk\<lparr>events := [AgentResponseCorrection ''a'' ''b'', SIGINT],
                     wait_exn := Some (SdkError ''connection lost'')\<rparr>"
  have h: "history demo_assistant = []" by (simp add: demo_assistant_def)
  have n: "\<not> list_ex is_turn (events ?x)" by (simp add: is_turn_def)
  have f: "fs fresh_world = Map.empty" by (simp add: fresh_world_def)
  from nothing_recorded_nothing_written [OF h n, of None fresh_world] h n f
  show ?thesis by simp
qed

section \<open>A session that ends normally\<close>

text \<open>
  The run of \<open>start\<close> when no call to the SDK raises: the clock is read once for the start
  instant, once by each callback that records a turn, once for the name of the file and
  once for the end instant.
\<close>

lemma start_normal:
  assumes a: "audio_exn x = None" and c: "construct_exn x = None" and st: "start_exn x = None"
    and wt: "wait_exn x = None"
    and sg: "end_exn x = None \<or> SIGINT \<notin> set (events x)"
    and ne: "history self \<noteq> [] \<or> list_ex is_turn (events x)"
    and l: "fs w ''logs'' = None \<or> fs w ''logs'' = Some Dir"
    and p: "fs w (default_filename (clock w (Suc (ticks w) + length (filter is_turn (events x))))) \<noteq> Some Dir"
  shows "\<exists>s w'. start x self w = (None, s, w') \<and>
           start_time s = Some (clock w (ticks w)) \<and>
           map shown (history s) = map shown (history self) @ map turn_of (filter is_turn (events x)) \<and>
           fs w' = (fs w)(''logs'' \<mapsto> Dir,
              default_filename (clock w (Suc (ticks w) + length (filter is_turn (events x)))) \<mapsto>
                File (Some \<lparr>json_start_time = Some (isoformat (clock w (ticks w))),
                            json_end_time = isoformat (clock w (Suc (Suc (ticks w)) + length (filter is_turn (events x)))),
                            json_history = history s\<rparr>))"
proof -
  let ?n = "length (filter is_turn (events x))"
  let ?c = "\<lparr>c_client = client self, c_agent_id = agent_id self,
             c_requires_auth = (case api_key self of None \<Rightarrow> False | Some k \<Rightarrow> k \<noteq> []),
             c_volume = volume self, c_client_tools = [''logMessage'']\<rparr>"
  let ?s2 = "self\<lparr>start_time := Some (clock w (ticks w)), conversation := Some ?c\<rparr>"
  let ?w4 = "sdk_call WaitForSessionEnd (sdk_call StartSession
               (logger_info ''Starting conversation. Press Ctrl+C to end.''
                  (sdk_call (NewConversation ?c) (sdk_call NewAudioInterface
                     (w\<lparr>sigint_installed := True, ticks := Suc (ticks w)\<rparr>)))))"
  have si: "sigint_installed ?w4" by (simp add: sdk_call_def logger_info_def)
  from sg si have "(end_exn x = None \<and> sigint_installed ?w4) \<or> SIGINT \<notin> set (events x)" by blast
  from run_events_ok [OF this, of ?s2] obtain s3 w5 where
    r: "run_events x (events x) ?s2 ?w4 = (None, s3, w5)"
    and k: "ticks w5 = ticks ?w4 + ?n"
    and h: "map shown (history s3) = map shown (history ?s2) @ map turn_of (filter is_turn (events x))"
    by blast
  from run_events_frame [OF r] have fr: "fs w5 = fs w" "clock w5 = clock w" "start_time s3 = Some (clock w (ticks w))"
    by (simp_all add: sdk_call_def logger_info_def)
  from k have k': "ticks w5 = Suc (ticks w) + ?n" by (simp add: sdk_call_def logger_info_def)
  let ?w6 = "logger_info (''Conversation ended. ID: '' @ str_id (wait_id x)) w5"
  have f6: "fs ?w6 = fs w" "clock ?w6 = clock w" "ticks ?w6 = Suc (ticks w) + ?n"
    using fr k' by (simp_all add: logger_info_def)
  have hn: "history s3 \<noteq> []"
  proof
    assume "history s3 = []"
    with h have "history self = []" "filter is_turn (events x) = []" by simp_all
    with ne show False by (auto simp: list_ex_iff filter_empty_conv)
  qed
  have sv: "save_conversation s3 None ?w6 =
    (None, ?w6\<lparr>fs := (fs ?w6)(''logs'' \<mapsto> Dir,
                default_filename (clock ?w6 (ticks ?w6)) \<mapsto> File (Some
                  \<lparr>json_start_time = map_option isoformat (start_time s3),
                   json_end_time = isoformat (clock ?w6 (Suc (ticks ?w6))),
                   json_history = history s3\<rparr>)),
             ticks := Suc (Suc (ticks ?w6)),
             log_lines := log_lines ?w6 @
               [(INFO, ''Conversation saved to '' @ default_filename (clock ?w6 (ticks ?w6)))]\<rparr>)"
    using l p f6 by (intro save_default_ok [OF hn]) simp_all
  have t: "start_try x self w = (case save_conversation s3 None ?w6 of (r, w6) \<Rightarrow> (r, s3, w6))"
    using a c st wt r by (simp add: start_try_def now_def Let_def)
  have "start x self w = (None, s3, snd (save_conversation s3 None ?w6))"
    unfolding start_def t sv by simp
  moreover have "fs (snd (save_conversation s3 None ?w6)) = (fs w)(''logs'' \<mapsto> Dir,
              default_filename (clock w (Suc (ticks w) + ?n)) \<mapsto>
                File (Some \<lparr>json_start_time = Some (isoformat (clock w (ticks w))),
                            json_end_time = isoformat (clock w (Suc (Suc (ticks w)) + ?n)),
                            json_history = history s3\<rparr>))"
    unfolding sv using f6 fr by simp
  moreover from h have "map shown (history s3) = map shown (history self) @ map turn_of (filter is_turn (events x))"
    by simp
  ultimately show ?thesis using fr(3) by blast
qed

lemmas run_defs = start_def start_try_def start_except_def save_conversation_def
  agent_response_callback_def user_transcript_callback_def correction_callback_def
  latency_callback_def handle_interrupt_def end_session_def sdk_call_def logger_info_def
  logger_error_def logger_debug_def now_def mkdir_exist_ok_def open_w_def parent_check_def
  dirname_def default_filename_def strftime_def isoformat_def d2_def d4_def d6_def digit_def
  str_id_def py_repr_def Let_def

lemmas demo_defs = demo_sdk_def failing_sdk_def demo_assistant_def fresh_world_def
  ticking_clock_def demo_float_def demo_int_def

text \<open>
  C1. Let the assistant start with an empty history, as \<open>init\<close> leaves it, and let the
  session consist of agent-response and user-transcript callbacks only, at least one, and
  end normally. Then the transcript file is written, and its \<^verbatim>\<open>history\<close> array has one
  entry for each callback, in the order of the callbacks, each with the role of its
  callback (\<^verbatim>\<open>agent\<close> or \<^verbatim>\<open>user\<close>) and the text it was given.
\<close>

theorem history_persisted_in_order:
  assumes "history self = []" and "list_all is_turn (events x)" and "events x \<noteq> []"
    and "audio_exn x = None" and "construct_exn x = None" and "start_exn x = None"
    and "wait_exn x = None"
    and "fs w ''logs'' = None \<or> fs w ''logs'' = Some Dir"
    and "fs w (default_filename (clock w (Suc (ticks w) + length (events x)))) \<noteq> Some Dir"
  shows "\<exists>s w' doc. start x self w = (None, s, w') \<and>
           fs w' (default_filename (clock w (Suc (ticks w) + length (events x)))) =
             Some (File (Some doc)) \<and>
           length (json_history doc) = length (events x) \<and>
           map shown (json_history doc) = map turn_of (events x)"
proof -
  from assms(2) have f: "filter is_turn (events x) = events x"
    by (simp add: list_all_iff)
  from assms(2) have sg: "end_exn x = None \<or> SIGINT \<notin> set (events x)"
    by (auto simp: list_all_iff is_turn_def)
  from assms(2,3) have ne: "history self \<noteq> [] \<or> list_ex is_turn (events x)"
    by (cases "events x") simp_all
  from assms(9) f
  have p: "fs w (default_filename (clock w (Suc (ticks w) +
             length (filter is_turn (events x))))) \<noteq> Some Dir" by simp
  from start_normal [OF assms(4,5,6,7) sg ne assms(8) p] obtain s w' where
    r: "start x self w = (None, s, w')"
    and h: "map shown (history s) = map shown (history self) @ map turn_of (filter is_turn (events x))"
    and fs': "fs w' = (fs w)(''logs'' \<mapsto> Dir,
              default_filename (clock w (Suc (ticks w) + length (filter is_turn (events x)))) \<mapsto>
                File (Some \<lparr>json_start_time = Some (isoformat (clock w (ticks w))),
                            json_end_time = isoformat (clock w (Suc (Suc (ticks w)) +
                               length (filter is_turn (events x)))),
                            json_history = history s\<rparr>))"
    by blast
  from h assms(1) f have m: "map shown (history s) = map turn_of (events x)" by simp
  then have "length (map shown (history s)) = length (map turn_of (events x))" by simp
  then have len: "length (history s) = length (events x)" by simp
  from r fs' f m len show ?thesis by simp
qed

theorem history_persisted_in_order_witness:
  "history demo_assistant = [] \<and> list_all is_turn (events demo_sdk) \<and> events demo_sdk \<noteq> [] \<and>
   audio_exn demo_sdk = None \<and> construct_exn demo_sdk = None \<and> start_exn demo_sdk = None \<and>
   wait_exn demo_sdk = None \<and>
   (fs fresh_world ''logs'' = None \<or> fs fresh_world ''logs'' = Some Dir) \<and>
   fs fresh_world (default_filename (clock fresh_world
      (Suc (ticks fresh_world) + length (events demo_sdk)))) \<noteq> Some Dir \<and>
   (\<exists>s w' doc. start demo_sdk demo_assistant fresh_world = (None, s, w') \<and>
      fs w' (default_filename (clock fresh_world
         (Suc (ticks fresh_world) + length (events demo_sdk)))) = Some (File (Some doc)) \<and>
      length (json_history doc) = length (events demo_sdk) \<and>
      map shown (json_history doc) = map turn_of (events demo_sdk))"
proof -
  have h1: "history demo_assistant = []" by (simp add: demo_assistant_def)
  have h2: "list_all is_turn (events demo_sdk)" by (simp add: demo_sdk_def is_turn_def)
  have h3: "events demo_sdk \<noteq> []" by (simp add: demo_sdk_def)
  have h4: "audio_exn demo_sdk = None" by (simp add: demo_sdk_def)
  have h5: "construct_exn demo_sdk = None" by (simp add: demo_sdk_def)
  have h6: "start_exn demo_sdk = None" by (simp add: demo_sdk_def)
  have h7: "wait_exn demo_sdk = None" by (simp add: demo_sdk_def)
  have h8: "fs fresh_world ''logs'' = None \<or> fs fresh_world ''logs'' = Some Dir"
    by (simp add: fresh_world_def)
  have h9: "fs fresh_world (default_filename (clock fresh_world
      (Suc (ticks fresh_world) + length (events demo_sdk)))) \<noteq> Some Dir"
    by (simp add: fresh_world_def)
  note c = history_persisted_in_order [OF h1 h2 h3 h4 h5 h6 h7 h8 h9]
  from h1 h2 h3 h4 h5 h6 h7 h8 h9 c show ?thesis by (intro conjI)
qed

section \<open>The default file name\<close>

text \<open>
  C3, as stated, fails. In the run of the example the session ends normally with two
  entries and the start instant is 2024-01-02 10:05:00, yet no file
  \<^verbatim>\<open>logs/20240102_100500.json\<close> exists afterwards: the name the code builds begins with
  \<^verbatim>\<open>conversation_\<close>, and its time is not the start instant either.
\<close>

theorem default_path_counterexample:
  "fst (start demo_sdk demo_assistant fresh_world) = None \<and>
   start_time (fst (snd (start demo_sdk demo_assistant fresh_world))) = Some (ticking_clock 0) \<and>
   strftime (ticking_clock 0) = ''20240102_100500'' \<and>
   fs (snd (snd (start demo_sdk demo_assistant fresh_world))) ''logs/20240102_100500.json'' = None \<and>
   fs (snd (snd (start demo_sdk demo_assistant fresh_world)))
     ''logs/conversation_20240102_100500.json'' = None"
  by (simp add: run_defs demo_defs)

text \<open>
  C3, amended. When a session ends normally with a transcript that is not empty, the
  transcript is written to \<^verbatim>\<open>logs/conversation_<YYYYMMDD_HHMMSS>.json\<close>, where the time is
  the reading of the clock that \<^verbatim>\<open>save_conversation\<close> takes when it builds the name (after
  the reading of the start instant and the readings of the callbacks), cut to seconds;
  \<^verbatim>\<open>logs\<close> is created if it is absent.
\<close>

theorem default_path_uses_save_instant:
  assumes "audio_exn x = None" and "construct_exn x = None" and "start_exn x = None"
    and "wait_exn x = None"
    and "end_exn x = None \<or> SIGINT \<notin> set (events x)"
    and "history self \<noteq> [] \<or> list_ex is_turn (events x)"
    and "fs w ''logs'' = None \<or> fs w ''logs'' = Some Dir"
    and "fs w (default_filename (clock w (Suc (ticks w) +
           length (filter is_turn (events x))))) \<noteq> Some Dir"
  shows "\<exists>s w' doc. start x self w = (None, s, w') \<and>
           start_time s = Some (clock w (ticks w)) \<and>
           fs w' ''logs'' = Some Dir \<and>
           fs w' (''logs/conversation_'' @
                  strftime (clock w (Suc (ticks w) + length (filter is_turn (events x)))) @
                  ''.json'') = Some (File (Some doc)) \<and>
           json_history doc = history s"
proof -
  from start_normal [OF assms] obtain s w' where
    r: "start x self w = (None, s, w')"
    and t: "start_time s = Some (clock w (ticks w))"
    and fs': "fs w' = (fs w)(''logs'' \<mapsto> Dir,
              default_filename (clock w (Suc (ticks w) + length (filter is_turn (events x)))) \<mapsto>
                File (Some \<lparr>json_start_time = Some (isoformat (clock w (ticks w))),
                            json_end_time = isoformat (clock w (Suc (Suc (ticks w)) +
                               length (filter is_turn (events x)))),
                            json_history = history s\<rparr>))"
    by blast
  have d: "default_filename (clock w (Suc (ticks w) + length (filter is_turn (events x)))) =
           ''logs/conversation_'' @
             strftime (clock w (Suc (ticks w) + length (filter is_turn (events x)))) @ ''.json''"
    by (simp add: default_filename_def)
  from fs' have "fs w' ''logs'' = Some Dir"
    by (simp add: default_filename_not_logs [symmetric])
  with r t fs' d show ?thesis by simp
qed

theorem default_path_uses_save_instant_witness:
  "audio_exn demo_sdk = None \<and> construct_exn demo_sdk = None \<and> start_exn demo_sdk = None \<and>
   wait_exn demo_sdk = None \<and>
   end_exn demo_sdk = None \<and> list_ex is_turn (events demo_sdk) \<and>
   (fs fresh_world ''logs'' = None \<or> fs fresh_world ''logs'' = Some Dir) \<and>
   fs fresh_world (default_filename (clock fresh_world (Suc (ticks fresh_world) +
      length (filter is_turn (events demo_sdk))))) \<noteq> Some Dir \<and>
   (\<exists>s w' doc. start demo_sdk demo_assistant fresh_world = (None, s, w') \<and>
      start_time s = Some (clock fresh_world (ticks fresh_world)) \<and>
      fs w' ''logs'' = Some Dir \<and>
      fs w' (''logs/conversation_'' @
             strftime (clock fresh_world (Suc (ticks fresh_world) +
                length (filter is_turn (events demo_sdk)))) @
             ''.json'') = Some (File (Some doc)) \<and>
      json_history doc = history s)"
proof -
  have h1: "audio_exn demo_sdk = None" by (simp add: demo_sdk_def)
  have h2: "construct_exn demo_sdk = None" by (simp add: demo_sdk_def)
  have h3: "start_exn demo_sdk = None" by (simp add: demo_sdk_def)
  have h4: "wait_exn demo_sdk = None" by (simp add: demo_sdk_def)
  have h5: "end_exn demo_sdk = None \<or> SIGINT \<notin> set (events demo_sdk)"
    by (simp add: demo_sdk_def)
  have h6: "history demo_assistant \<noteq> [] \<or> list_ex is_turn (events demo_sdk)"
    by (simp add: demo_sdk_def is_turn_def)
  have h7: "fs fresh_world ''logs'' = None \<or> fs fresh_world ''logs'' = Some Dir"
    by (simp add: fresh_world_def)
  have h8: "fs fresh_world (default_filename (clock fresh_world (Suc (ticks fresh_world) +
      length (filter is_turn (events demo_sdk))))) \<noteq> Some Dir"
    by (simp add: fresh_world_def)
  have e: "end_exn demo_sdk = None" by (simp add: demo_sdk_def)
  have t: "list_ex is_turn (events demo_sdk)" by (simp add: demo_sdk_def is_turn_def)
  note c = default_path_uses_save_instant [OF h1 h2 h3 h4 h5 h6 h7 h8]
  from h1 h2 h3 h4 e t h7 h8 c show ?thesis by (intro conjI)
qed

section \<open>A session that ends with an exception\<close>

text \<open>
  Where \<^verbatim>\<open>logs\<close> exists, the handler of \<open>start\<close> does what is expected of it after a
  failure of the stream: it ends the session, writes the recorded entries to
  \<^verbatim>\<open>logs/conversation_error.json\<close> and raises \<^verbatim>\<open>SystemExit(1)\<close>.
\<close>

lemma save_explicit_ok:
  assumes h: "history self \<noteq> []"
    and l: "fs w (dirname fn) = Some Dir" and d: "dirname fn \<noteq> []"
    and p: "fs w fn \<noteq> Some Dir"
  shows "save_conversation self (Some fn) w =
    (None, w\<lparr>fs := (fs w)(fn \<mapsto> File (Some
                  \<lparr>json_start_time = map_option isoformat (start_time self),
                   json_end_time = isoformat (clock w (ticks w)),
                   json_history = history self\<rparr>)),
             ticks := Suc (ticks w),
             log_lines := log_lines w @ [(INFO, ''Conversation saved to '' @ fn)]\<rparr>)"
proof -
  have o: "open_w fn (fs w) = Inr ((fs w)(fn \<mapsto> File None))"
    using l d p by (auto simp: open_w_def parent_check_def split: option.splits node.splits)
  show ?thesis
    using h by (simp add: save_conversation_def now_def o logger_info_def)
qed

lemma start_error_path:
  assumes a: "audio_exn x = None" and c: "construct_exn x = None" and st: "start_exn x = None"
    and wt: "wait_exn x = Some e" and ie: "is_Exception e" and en: "end_exn x = None"
    and ne: "history self \<noteq> [] \<or> list_ex is_turn (events x)"
    and l: "fs w ''logs'' = Some Dir"
    and p: "fs w ''logs/conversation_error.json'' \<noteq> Some Dir"
  shows "\<exists>s w'. start x self w = (Some (SystemExit 1), s, w') \<and>
           map shown (history s) = map shown (history self) @ map turn_of (filter is_turn (events x)) \<and>
           last (calls w') = EndSession \<and>
           fs w' = (fs w)(''logs/conversation_error.json'' \<mapsto>
                File (Some \<lparr>json_start_time = Some (isoformat (clock w (ticks w))),
                            json_end_time = isoformat (clock w (Suc (ticks w) + length (filter is_turn (events x)))),
                            json_history = history s\<rparr>))"
proof -
  let ?n = "length (filter is_turn (events x))"
  let ?c = "\<lparr>c_client = client self, c_agent_id = agent_id self,
             c_requires_auth = (case api_key self of None \<Rightarrow> False | Some k \<Rightarrow> k \<noteq> []),
             c_volume = volume self, c_client_tools = [''logMessage'']\<rparr>"
  let ?s2 = "self\<lparr>start_time := Some (clock w (ticks w)), conversation := Some ?c\<rparr>"
  let ?w4 = "sdk_call WaitForSessionEnd (sdk_call StartSession
               (logger_info ''Starting conversation. Press Ctrl+C to end.''
                  (sdk_call (NewConversation ?c) (sdk_call NewAudioInterface
                     (w\<lparr>sigint_installed := True, ticks := Suc (ticks w)\<rparr>)))))"
  have si: "sigint_installed ?w4" by (simp add: sdk_call_def logger_info_def)
  from en si have "(end_exn x = None \<and> sigint_installed ?w4) \<or> SIGINT \<notin> set (events x)" by blast
  from run_events_ok [OF this, of ?s2] obtain s3 w5 where
    r: "run_events x (events x) ?s2 ?w4 = (None, s3, w5)"
    and k: "ticks w5 = ticks ?w4 + ?n"
    and h: "map shown (history s3) = map shown (history ?s2) @ map turn_of (filter is_turn (events x))"
    by blast
  from run_events_frame [OF r] have fr: "fs w5 = fs w" "clock w5 = clock w"
      "start_time s3 = Some (clock w (ticks w))" "conversation s3 = Some ?c"
    by (simp_all add: sdk_call_def logger_info_def)
  from k have k': "ticks w5 = Suc (ticks w) + ?n" by (simp add: sdk_call_def logger_info_def)
  have hn: "history s3 \<noteq> []"
  proof
    assume "history s3 = []"
    with h have "history self = []" "filter is_turn (events x) = []" by simp_all
    with ne show False by (auto simp: list_ex_iff filter_empty_conv)
  qed
  have t: "start_try x self w = (Some e, s3, w5)"
    using a c st wt r by (simp add: start_try_def now_def Let_def)
  let ?w6 = "\<lambda>m. sdk_call EndSession (logger_error m w5)"
  have f6: "\<And>m. fs (?w6 m) = fs w" "\<And>m. clock (?w6 m) = clock w"
      "\<And>m. ticks (?w6 m) = Suc (ticks w) + ?n"
    using fr k' by (simp_all add: logger_error_def sdk_call_def)
  have c6: "\<And>m. calls (?w6 m) = calls w5 @ [EndSession]"
    by (simp add: logger_error_def sdk_call_def)
  have sv: "\<And>m. save_conversation s3 (Some ''logs/conversation_error.json'') (?w6 m) =
    (None, (?w6 m)\<lparr>fs := (fs w)(''logs/conversation_error.json'' \<mapsto> File (Some
                  \<lparr>json_start_time = Some (isoformat (clock w (ticks w))),
                   json_end_time = isoformat (clock w (Suc (ticks w) + ?n)),
                   json_history = history s3\<rparr>)),
             ticks := Suc (Suc (ticks w) + ?n),
             log_lines := log_lines (?w6 m) @
               [(INFO, ''Conversation saved to '' @ ''logs/conversation_error.json'')]\<rparr>)"
  proof -
    fix m
    have "fs (?w6 m) (dirname ''logs/conversation_error.json'') = Some Dir"
      using l f6 by (simp add: dirname_error_file)
    moreover have "dirname ''logs/conversation_error.json'' \<noteq> []"
      by (simp add: dirname_error_file)
    moreover have "fs (?w6 m) ''logs/conversation_error.json'' \<noteq> Some Dir"
      using p f6 by simp
    ultimately show "save_conversation s3 (Some ''logs/conversation_error.json'') (?w6 m) =
      (None, (?w6 m)\<lparr>fs := (fs w)(''logs/conversation_error.json'' \<mapsto> File (Some
                  \<lparr>json_start_time = Some (isoformat (clock w (ticks w))),
                   json_end_time = isoformat (clock w (Suc (ticks w) + ?n)),
                   json_history = history s3\<rparr>)),
             ticks := Suc (Suc (ticks w) + ?n),
             log_lines := log_lines (?w6 m) @
               [(INFO, ''Conversation saved to '' @ ''logs/conversation_error.json'')]\<rparr>)"
      using save_explicit_ok [OF hn, of "?w6 m" "''logs/conversation_error.json''"] f6 fr(3)
      by simp
  qed
  obtain w7 where ex: "start_except x e s3 w5 = (Some (SystemExit 1), s3, w7)"
      and f7: "fs w7 = (fs w)(''logs/conversation_error.json'' \<mapsto> File (Some
                  \<lparr>json_start_time = Some (isoformat (clock w (ticks w))),
                   json_end_time = isoformat (clock w (Suc (ticks w) + ?n)),
                   json_history = history s3\<rparr>))"
      and c7: "last (calls w7) = EndSession"
    using fr(4) en c6 by (simp add: start_except_def Let_def end_session_def sv)
  have "start x self w = (Some (SystemExit 1), s3, w7)"
    using ie by (simp add: start_def t ex)
  moreover note f7 c7
  moreover from h have "map shown (history s3) = map shown (history self) @ map turn_of (filter is_turn (events x))"
    by simp
  ultimately show ?thesis by blast
qed

text \<open>
  C6 asks that, after an exception of the stream with entries recorded, the session be
  ended, the transcript with exactly those entries be written to
  \<^verbatim>\<open>logs/conversation_error.json\<close> and the process exit with status 1. The code misses
  the second part when \<^verbatim>\<open>logs\<close> does not exist yet, as on a first run: the session is
  ended and the two entries are in memory, but the save raises \<^verbatim>\<open>FileNotFoundError\<close>,
  which escapes \<open>start\<close>; no file is written, and the status 1 comes from the handler of
  \<open>main\<close>.
\<close>

theorem error_path_without_logs:
  "fst (start failing_sdk demo_assistant fresh_world) =
     Some (FileNotFoundError ''logs/conversation_error.json'') \<and>
   map shown (history (fst (snd (start failing_sdk demo_assistant fresh_world)))) =
     [Some (''user'', ''hello''), Some (''agent'', ''hi there'')] \<and>
   calls (snd (snd (start failing_sdk demo_assistant fresh_world))) =
     [NewAudioInterface,
      NewConversation \<lparr>c_client = ElevenLabs None, c_agent_id = ''abc123'',
        c_requires_auth = False, c_volume = 1, c_client_tools = [''logMessage'']\<rparr>,
      StartSession, WaitForSessionEnd, EndSession] \<and>
   fs (snd (snd (start failing_sdk demo_assistant fresh_world))) = Map.empty \<and>
   fst (main demo_float demo_int Map.empty (Map.empty(''AGENT_ID'' \<mapsto> ''abc123''))
          failing_sdk fresh_world) = 1"
  by (simp add: run_defs demo_defs shown_def main_def main_except_def init_def getenv_def)

section \<open>The timeout\<close>

text \<open>
  The field \<open>timeout\<close> of the assistant is never read: whatever its value, \<open>start\<close> makes
  the same calls with the same arguments, returns the same result and leaves the same
  world.
\<close>

lemma deliver_timeout:
  "deliver x e (self\<lparr>timeout := t\<rparr>) w =
     (case deliver x e self w of (r, s, w') \<Rightarrow> (r, s\<lparr>timeout := t\<rparr>, w'))"
  by (cases e)
     (auto simp: agent_response_callback_def user_transcript_callback_def
        correction_callback_def latency_callback_def handle_interrupt_def Let_def
        split: option.splits prod.splits)

lemma run_events_timeout:
  "run_events x evs (self\<lparr>timeout := t\<rparr>) w =
     (case run_events x evs self w of (r, s, w') \<Rightarrow> (r, s\<lparr>timeout := t\<rparr>, w'))"
proof (induction evs arbitrary: self w)
  case Nil
  then show ?case by simp
next
  case (Cons e es)
  obtain r1 s1 w1 where d: "deliver x e self w = (r1, s1, w1)"
    by (cases "deliver x e self w") auto
  show ?case
    by (cases r1) (simp_all add: deliver_timeout d Cons.IH)
qed

lemma save_conversation_timeout:
  "save_conversation (self\<lparr>timeout := t\<rparr>) filename w = save_conversation self filename w"
  by (auto simp: save_conversation_def split: option.splits sum.splits prod.splits)

lemma start_try_timeout:
  "start_try x (self\<lparr>timeout := t\<rparr>) w =
     (case start_try x self w of (r, s, w') \<Rightarrow> (r, s\<lparr>timeout := t\<rparr>, w'))"
proof -
  have eq: "\<And>a c. self\<lparr>timeout := t, start_time := a, conversation := c\<rparr> =
                  (self\<lparr>start_time := a, conversation := c\<rparr>)\<lparr>timeout := t\<rparr>"
    by simp
  have re: "\<And>a c w. run_events x (events x)
                 (self\<lparr>timeout := t, start_time := a, conversation := c\<rparr>) w =
               (case run_events x (events x) (self\<lparr>start_time := a, conversation := c\<rparr>) w of
                  (r, s, w') \<Rightarrow> (r, s\<lparr>timeout := t\<rparr>, w'))"
    unfolding eq by (rule run_events_timeout)
  show ?thesis
    by (simp add: start_try_def Let_def re save_conversation_timeout
          split: option.splits prod.splits)
qed

lemma start_except_timeout:
  "start_except x e (self\<lparr>timeout := t\<rparr>) w =
     (case start_except x e self w of (r, s, w') \<Rightarrow> (r, s\<lparr>timeout := t\<rparr>, w'))"
  by (simp add: start_except_def Let_def save_conversation_timeout
        split: option.splits prod.splits)

lemma start_timeout:
  "start x (self\<lparr>timeout := t\<rparr>) w =
     (case start x self w of (r, s, w') \<Rightarrow> (r, s\<lparr>timeout := t\<rparr>, w'))"
  by (simp add: start_def start_try_timeout start_except_timeout split: option.splits prod.splits)

text \<open>
  C7 asks that the configured timeout be passed to the conversation at its construction.
  With \<^verbatim>\<open>TIMEOUT=60\<close> in the environment, \<open>init\<close> stores 60 in the assistant, but the
  calls that \<open>main\<close> makes to the SDK are those it makes with no \<^verbatim>\<open>TIMEOUT\<close> at all: the
  conversation is built from the client, the agent identifier, the authentication flag,
  the volume and the tools (and the audio interface and the callbacks), and no timeout.
\<close>

theorem timeout_not_passed:
  "fst (init demo_float demo_int Map.empty
          (Map.empty(''AGENT_ID'' \<mapsto> ''abc123'', ''TIMEOUT'' \<mapsto> ''60'')) demo_sdk fresh_world) =
     Inr (demo_assistant\<lparr>timeout := 60\<rparr>) \<and>
   calls (snd (main demo_float demo_int Map.empty
          (Map.empty(''AGENT_ID'' \<mapsto> ''abc123'', ''TIMEOUT'' \<mapsto> ''60'')) demo_sdk fresh_world)) =
     [NewClient None, NewAudioInterface,
      NewConversation \<lparr>c_client = ElevenLabs None, c_agent_id = ''abc123'',
        c_requires_auth = False, c_volume = 1, c_client_tools = [''logMessage'']\<rparr>,
      StartSession, WaitForSessionEnd] \<and>
   calls (snd (main demo_float demo_int Map.empty
          (Map.empty(''AGENT_ID'' \<mapsto> ''abc123'')) demo_sdk fresh_world)) =
     [NewClient None, NewAudioInterface,
      NewConversation \<lparr>c_client = ElevenLabs None, c_agent_id = ''abc123'',
        c_requires_auth = False, c_volume = 1, c_client_tools = [''logMessage'']\<rparr>,
      StartSession, WaitForSessionEnd]"
  by (simp add: run_defs demo_defs main_def main_except_def init_def getenv_def)

end
